theory Spec2Isabelle
  imports Complex_Main
begin

section \<open>NumPy arrays and Python indexing\<close>

text \<open>
  The machine of \<^verbatim>\<open>FiniteStateMachine.py\<close> keeps its tables in NumPy arrays of integers.
  A two-dimensional array is modelled by the list of its rows. Every subscript of the
  source goes through Python's index rule: an index \<open>i\<close> into an axis of length \<open>n\<close> is
  valid when \<open>-n \<le> i < n\<close>, a negative one counts from the end, and any other index
  raises \<^verbatim>\<open>IndexError\<close>.
\<close>

datatype error = IndexError | ValueError

definition py_index :: "nat \<Rightarrow> int \<Rightarrow> error + nat" where
  "py_index n i =
     (if 0 \<le> i \<and> i < int n then Inr (nat i)
      else if - int n \<le> i \<and> i < 0 then Inr (nat (i + int n))
      else Inl IndexError)"

text \<open>\<open>a[i, j]\<close> read and written; the row axis is checked before the column axis.\<close>

definition get2 :: "'a list list \<Rightarrow> int \<Rightarrow> int \<Rightarrow> error + 'a" where
  "get2 a i j =
     (case py_index (length a) i of
        Inl e \<Rightarrow> Inl e
      | Inr r \<Rightarrow>
          (case py_index (length (a ! r)) j of
             Inl e \<Rightarrow> Inl e
           | Inr c \<Rightarrow> Inr (a ! r ! c)))"

definition set2 :: "'a list list \<Rightarrow> int \<Rightarrow> int \<Rightarrow> 'a \<Rightarrow> error + 'a list list" where
  "set2 a i j v =
     (case py_index (length a) i of
        Inl e \<Rightarrow> Inl e
      | Inr r \<Rightarrow>
          (case py_index (length (a ! r)) j of
             Inl e \<Rightarrow> Inl e
           | Inr c \<Rightarrow> Inr (a[r := (a ! r)[c := v]])))"

text \<open>
  \<^verbatim>\<open>np.asarray\<close> on a nested list of integers (the converter of both table fields):
  rows of different lengths have no common shape and NumPy raises \<^verbatim>\<open>ValueError\<close>.
\<close>

definition asarray :: "int list list \<Rightarrow> error + int list list" where
  "asarray rows =
     (if \<forall>r \<in> set rows. length r = length (hd rows) then Inr rows else Inl ValueError)"

section \<open>The finite-state machine\<close>

record FiniteStateMachine =
  next_states :: "int list list"
  outputs :: "int list list"
  input_edges :: "int list list"
  output_edges :: "int list list"

definition num_states :: "int list list \<Rightarrow> nat" where
  "num_states ns = length ns"

text \<open>\<^verbatim>\<open>next_states.shape[1]\<close>: the array built from the empty list has one axis only.\<close>

definition num_input_symbols :: "FiniteStateMachine \<Rightarrow> error + nat" where
  "num_input_symbols fsm =
     (case next_states fsm of [] \<Rightarrow> Inl IndexError | r # _ \<Rightarrow> Inr (length r))"

text \<open>\<^verbatim>\<open>int(np.amax(self.outputs))\<close>; \<^verbatim>\<open>amax\<close> of an array without elements raises.\<close>

definition num_output_symbols :: "FiniteStateMachine \<Rightarrow> error + int" where
  "num_output_symbols fsm =
     (case concat (outputs fsm) of
        [] \<Rightarrow> Inl ValueError
      | y # ys \<Rightarrow> Inr (fold max ys y))"

text \<open>
  \<^verbatim>\<open>__attrs_post_init__\<close>: the inner loop over \<open>enumerate(next_states[state_from, :])\<close>
  and the outer loop over \<open>range(num_states)\<close>. The pair carried through both loops is
  \<open>(input_edges, output_edges)\<close>.
\<close>

fun post_init_row ::
  "int list list \<Rightarrow> nat \<Rightarrow> (nat \<times> int) list \<Rightarrow> int list list \<times> int list list
     \<Rightarrow> error + int list list \<times> int list list" where
  "post_init_row outs state_from [] edges = Inr edges"
| "post_init_row outs state_from ((x, state_to) # rest) (ie, oe) =
     (case set2 ie (int state_from) state_to (int x) of
        Inl e \<Rightarrow> Inl e
      | Inr ie' \<Rightarrow>
          (case get2 outs (int state_from) (int x) of
             Inl e \<Rightarrow> Inl e
           | Inr y \<Rightarrow>
               (case set2 oe (int state_from) state_to y of
                  Inl e \<Rightarrow> Inl e
                | Inr oe' \<Rightarrow> post_init_row outs state_from rest (ie', oe'))))"

fun post_init_states ::
  "int list list \<Rightarrow> int list list \<Rightarrow> nat list \<Rightarrow> int list list \<times> int list list
     \<Rightarrow> error + int list list \<times> int list list" where
  "post_init_states ns outs [] edges = Inr edges"
| "post_init_states ns outs (state_from # rest) edges =
     (case post_init_row outs state_from (enumerate 0 (ns ! state_from)) edges of
        Inl e \<Rightarrow> Inl e
      | Inr edges' \<Rightarrow> post_init_states ns outs rest edges')"

text \<open>
  Construction: both converters run, then \<^verbatim>\<open>__attrs_post_init__\<close> fills the two edge
  tables, which start as \<open>num_states \<times> num_states\<close> arrays of \<open>-1\<close>.
\<close>

definition FiniteStateMachine_new ::
  "int list list \<Rightarrow> int list list \<Rightarrow> error + FiniteStateMachine" where
  "FiniteStateMachine_new ns0 outs0 =
     (case asarray ns0 of
        Inl e \<Rightarrow> Inl e
      | Inr ns \<Rightarrow>
          (case asarray outs0 of
             Inl e \<Rightarrow> Inl e
           | Inr outs \<Rightarrow>
               (let S = num_states ns;
                    blank = replicate S (replicate S (- 1))
                in case post_init_states ns outs [0..<S] (blank, blank) of
                     Inl e \<Rightarrow> Inl e
                   | Inr (ie, oe) \<Rightarrow>
                       Inr \<lparr>next_states = ns, outputs = outs,
                            input_edges = ie, output_edges = oe\<rparr>)))"

text \<open>
  \<^verbatim>\<open>process\<close>: the output is read before the state advances; the first failing
  subscript aborts the call, so an error carries no output.
\<close>

fun process :: "FiniteStateMachine \<Rightarrow> int list \<Rightarrow> int \<Rightarrow> error + int list \<times> int" where
  "process fsm [] s = Inr ([], s)"
| "process fsm (x # xs) s =
     (case get2 (outputs fsm) s x of
        Inl e \<Rightarrow> Inl e
      | Inr y \<Rightarrow>
          (case get2 (next_states fsm) s x of
             Inl e \<Rightarrow> Inl e
           | Inr s' \<Rightarrow>
               (case process fsm xs s' of
                  Inl e \<Rightarrow> Inl e
                | Inr (ys, final_state) \<Rightarrow> Inr (y # ys, final_state))))"

text \<open>The machine of the class documentation.\<close>

definition example_fsm :: FiniteStateMachine where
  "example_fsm =
     \<lparr>next_states = [[0, 1], [2, 3], [0, 1], [2, 3]],
      outputs = [[0, 3], [1, 2], [3, 0], [2, 1]],
      input_edges = [[0, 1, - 1, - 1], [- 1, - 1, 0, 1], [0, 1, - 1, - 1], [- 1, - 1, 0, 1]],
      output_edges = [[0, 3, - 1, - 1], [- 1, - 1, 1, 2], [3, 0, - 1, - 1], [- 1, - 1, 2, 1]]\<rparr>"

section \<open>Predicates on constructor and replay arguments\<close>

text \<open>A table whose rows do not all have the length of the first one.\<close>

definition ragged :: "int list list \<Rightarrow> bool" where
  "ragged a = list_ex (\<lambda>r. length r \<noteq> length (hd a)) a"

text \<open>
  A transition table with an entry that is no valid Python index into the state axis,
  that is, outside \<open>[-num_states, num_states)\<close>.
\<close>

definition entry_outside :: "int list list \<Rightarrow> bool" where
  "entry_outside ns =
     list_ex (list_ex (\<lambda>v. v < - int (length ns) \<or> int (length ns) \<le> v)) ns"

definition square :: "nat \<Rightarrow> 'a list list \<Rightarrow> bool" where
  "square S a = (length a = S \<and> list_all (\<lambda>r. length r = S) a)"

definition rows_of_width :: "int list list \<Rightarrow> nat \<Rightarrow> bool" where
  "rows_of_width a X = list_all (\<lambda>r. length r = X) a"

text \<open>An input sequence with a symbol that is no valid Python index into an axis of length \<open>X\<close>.\<close>

definition symbol_outside :: "nat \<Rightarrow> int list \<Rightarrow> bool" where
  "symbol_outside X xs = list_ex (\<lambda>x. x < - int X \<or> int X \<le> x) xs"

section \<open>Path metrics\<close>

text \<open>
  Path metrics are floating-point numbers that start at \<^verbatim>\<open>np.inf\<close> or at a finite value
  and grow by the values of the metric function. They are modelled by the reals extended
  with \<open>+\<infinity>\<close>; the metric function returns a (finite) real. Rounding is not modelled.
\<close>

datatype metric = Fin real | PInf

instantiation metric :: linorder
begin

fun less_eq_metric :: "metric \<Rightarrow> metric \<Rightarrow> bool" where
  "less_eq_metric (Fin a) (Fin b) = (a \<le> b)"
| "less_eq_metric PInf (Fin b) = False"
| "less_eq_metric m PInf = True"

definition less_metric :: "metric \<Rightarrow> metric \<Rightarrow> bool" where
  "less_metric a b = (a \<le> b \<and> \<not> b \<le> a)"

instance
proof
  fix x y z :: metric
  show "(x < y) = (x \<le> y \<and> \<not> y \<le> x)" by (simp add: less_metric_def)
  show "x \<le> x" by (cases x) simp_all
  show "x \<le> y \<Longrightarrow> y \<le> z \<Longrightarrow> x \<le> z" by (cases x; cases y; cases z) simp_all
  show "x \<le> y \<Longrightarrow> y \<le> x \<Longrightarrow> x = y" by (cases x; cases y) simp_all
  show "x \<le> y \<or> y \<le> x" by (cases x; cases y) auto
qed

end

text \<open>\<open>metrics[t, s0] + metric_function(y, z)\<close>.\<close>

fun madd :: "metric \<Rightarrow> real \<Rightarrow> metric" where
  "madd (Fin a) c = Fin (a + c)"
| "madd PInf c = PInf"

section \<open>The forward pass of the Viterbi algorithm\<close>

text \<open>
  The two innermost loops of \<^verbatim>\<open>viterbi\<close> and of \<^verbatim>\<open>viterbi_streaming\<close> have the same
  body. The pair carried through them is the row of metrics being built and the row of
  choices; \<open>cur\<close> is the metric of the source state \<open>s0\<close> (the subscript
  \<open>metrics[t, s0]\<close>, respectively \<open>memory["metrics"][s0, -1]\<close>, which is read once for
  every edge and may fail). The stored metric and predecessor are replaced only when the
  candidate is strictly smaller.
\<close>

fun forward_edges ::
  "(int \<Rightarrow> 'z \<Rightarrow> real) \<Rightarrow> 'z \<Rightarrow> error + metric \<Rightarrow> nat \<Rightarrow> (int \<times> int) list
     \<Rightarrow> metric list \<times> int list \<Rightarrow> error + metric list \<times> int list" where
  "forward_edges metric_function z cur s0 [] acc = Inr acc"
| "forward_edges metric_function z cur s0 ((s1, y) # rest) (new_metrics, choices) =
     (case cur of
        Inl e \<Rightarrow> Inl e
      | Inr m \<Rightarrow>
          (let candidate = madd m (metric_function y z) in
           case py_index (length new_metrics) s1 of
             Inl e \<Rightarrow> Inl e
           | Inr j \<Rightarrow>
               forward_edges metric_function z cur s0 rest
                 (if candidate < new_metrics ! j
                  then (new_metrics[j := candidate], choices[j := int s0])
                  else (new_metrics, choices))))"



section \<open>Block decoding\<close>








section \<open>Streaming decoding\<close>









section \<open>The stream decoder\<close>



section \<open>Well-formed machines and the edges of the trellis\<close>


text \<open>An edge is a pair (source state, input symbol); its target and its output.\<close>

definition target :: "FiniteStateMachine \<Rightarrow> nat \<times> nat \<Rightarrow> nat" where
  "target fsm e = nat (next_states fsm ! fst e ! snd e)"

definition label :: "FiniteStateMachine \<Rightarrow> nat \<times> nat \<Rightarrow> int" where
  "label fsm e = outputs fsm ! fst e ! snd e"

text \<open>
  The order in which the forward pass visits the edges: ascending source state and,
  within a source state, ascending input symbol.
\<close>

definition edge_order :: "FiniteStateMachine \<Rightarrow> nat \<Rightarrow> (nat \<times> nat) list" where
  "edge_order fsm X = List.product [0..<length (next_states fsm)] [0..<X]"

text \<open>The candidate metric of an edge at one step: \<open>metrics[t, s0] + metric_function(y, z)\<close>.\<close>

definition candidate ::
  "FiniteStateMachine \<Rightarrow> (int \<Rightarrow> 'z \<Rightarrow> real) \<Rightarrow> 'z \<Rightarrow> metric list \<Rightarrow> nat \<times> nat \<Rightarrow> metric" where
  "candidate fsm metric_function z row e =
     madd (row ! fst e) (metric_function (label fsm e) z)"

text \<open>The relaxation of a list of edges, without the subscript checks.\<close>

fun relax ::
  "FiniteStateMachine \<Rightarrow> (nat \<times> nat \<Rightarrow> metric) \<Rightarrow> (nat \<times> nat) list
     \<Rightarrow> metric list \<times> int list \<Rightarrow> metric list \<times> int list" where
  "relax fsm c [] acc = acc"
| "relax fsm c (e # es) (new_metrics, choices) =
     relax fsm c es
       (if c e < new_metrics ! target fsm e
        then (new_metrics[target fsm e := c e], choices[target fsm e := int (fst e)])
        else (new_metrics, choices))"

text \<open>
  A two-state machine in which both states are entered from both states, a metric function
  that is constantly zero, and an allocation whose cells hold zero.
\<close>

definition tie_fsm :: FiniteStateMachine where
  "tie_fsm =
     \<lparr>next_states = [[1, 0], [0, 1]], outputs = [[0, 0], [0, 0]],
      input_edges = [[1, 0], [0, 1]], output_edges = [[0, 0], [0, 0]]\<rparr>"



section \<open>Predicates of the decoding theorems\<close>













section \<open>Predicates of the streaming theorem\<close>









section \<open>Tail-biting termination\<close>

text \<open>
  Modelled from the spec: the bit utilities \<^verbatim>\<open>int2binlist\<close> and \<^verbatim>\<open>binlist2int\<close>, which are not
  among the sources. The spec calls them exact and lossless conversions between an integer
  and a bit list of a given width; the least significant bit comes first.
\<close>

fun int2binlist :: "int \<Rightarrow> nat \<Rightarrow> int list" where
  "int2binlist v 0 = []"
| "int2binlist v (Suc width) = v mod 2 # int2binlist (v div 2) width"

fun binlist2int :: "int list \<Rightarrow> int" where
  "binlist2int [] = 0"
| "binlist2int (b # bs) = (if b = 0 then 0 else 1) + 2 * binlist2int bs"

text \<open>
  NumPy's integer arithmetic on a vector and on matrices given by their rows: the product
  \<open>v @ M\<close>, the product of two matrices, the identity \<^verbatim>\<open>np.eye(n, dtype=int)\<close>, the power
  \<^verbatim>\<open>matrix_power(A, h)\<close> (the product of \<open>h\<close> copies of \<open>A\<close>), the sum of two matrices of one
  shape and the entrywise \<open>% 2\<close>. Integers are unbounded here.
\<close>

definition ncols :: "int list list \<Rightarrow> nat" where
  "ncols M = (case M of [] \<Rightarrow> 0 | r # _ \<Rightarrow> length r)"

definition vecmat :: "int list \<Rightarrow> int list list \<Rightarrow> int list" where
  "vecmat v M = map (\<lambda>j. \<Sum>i < length v. v ! i * M ! i ! j) [0..<ncols M]"

definition matmul :: "int list list \<Rightarrow> int list list \<Rightarrow> int list list" where
  "matmul A B = map (\<lambda>row. vecmat row B) A"

definition eye :: "nat \<Rightarrow> int list list" where
  "eye n = map (\<lambda>i. map (\<lambda>j. if i = j then 1 else 0) [0..<n]) [0..<n]"

fun matrix_power :: "int list list \<Rightarrow> nat \<Rightarrow> int list list" where
  "matrix_power A 0 = eye (length A)"
| "matrix_power A (Suc h) = matmul A (matrix_power A h)"

definition mat_add :: "int list list \<Rightarrow> int list list \<Rightarrow> int list list" where
  "mat_add A B = map (\<lambda>(r, s). map (\<lambda>(a, b). a + b) (zip r s)) (zip A B)"

definition vec_add :: "int list \<Rightarrow> int list \<Rightarrow> int list" where
  "vec_add v w = map (\<lambda>(a, b). a + b) (zip v w)"

definition vec_mod2 :: "int list \<Rightarrow> int list" where
  "vec_mod2 v = map (\<lambda>a. a mod 2) v"

definition mat_mod2 :: "int list list \<Rightarrow> int list list" where
  "mat_mod2 M = map vec_mod2 M"

text \<open>
  \<^verbatim>\<open>TailBiting._zs_multiplier\<close>. The operator \<open>%\<close> binds tighter than \<open>+\<close>: the identity is
  reduced modulo 2, the sum is not. The function \<^verbatim>\<open>pseudo_inverse\<close> is not among the
  sources and is a parameter, as are the parts of the convolutional code that are read:
  its machine, its overall constraint length \<open>nu\<close> and the matrix \<open>A_mat\<close> of its
  state-space representation.
\<close>

definition zs_multiplier ::
  "(int list list \<Rightarrow> int list list) \<Rightarrow> int list list \<Rightarrow> nat \<Rightarrow> nat \<Rightarrow> int list list" where
  "zs_multiplier pseudo_inverse A_mat h nu =
     pseudo_inverse (mat_add (matrix_power A_mat h) (mat_mod2 (eye nu)))"

text \<open>
  \<^verbatim>\<open>TailBiting.initial_state\<close>: the machine runs once from state \<open>0\<close>, and the bits of the
  state it reaches are multiplied by the corrector. The product \<open>@\<close> raises when the
  vector and the matrix do not fit.
\<close>

definition TailBiting_initial_state ::
  "(int list list \<Rightarrow> int list list) \<Rightarrow> FiniteStateMachine \<Rightarrow> nat \<Rightarrow> int list list \<Rightarrow> nat
     \<Rightarrow> int list \<Rightarrow> error + int" where
  "TailBiting_initial_state pseudo_inverse fsm nu A_mat h input_bits =
     (case process fsm input_bits 0 of
        Inl e \<Rightarrow> Inl e
      | Inr (output_sequence, zs_response) \<Rightarrow>
          (let bits = int2binlist zs_response nu;
               multiplier = zs_multiplier pseudo_inverse A_mat h nu
           in if length multiplier = length bits
              then Inr (binlist2int (vec_mod2 (vecmat bits multiplier)))
              else Inl ValueError))"

text \<open>A list of bits.\<close>

definition binary :: "int list \<Rightarrow> bool" where
  "binary bs = list_all (\<lambda>b. b = 0 \<or> b = 1) bs"

text \<open>A matrix of \<open>r\<close> rows and \<open>c\<close> columns.\<close>

definition is_mat :: "nat \<Rightarrow> nat \<Rightarrow> int list list \<Rightarrow> bool" where
  "is_mat r c M = (length M = r \<and> list_all (\<lambda>row. length row = c) M)"

text \<open>
  The machine realises a state-space representation with the matrix \<open>A\<close>: its states are
  the \<open>2 ^ nu\<close> bit vectors of width \<open>nu\<close>, and the bits of the state after \<open>s\<close> on input \<open>x\<close>
  are the bits of \<open>s\<close> times \<open>A\<close> plus the bits of the state after \<open>0\<close> on input \<open>x\<close>
  (the product of the input block with \<open>B\<close>), over GF(2).
\<close>

definition state_space :: "FiniteStateMachine \<Rightarrow> nat \<Rightarrow> nat \<Rightarrow> int list list \<Rightarrow> bool" where
  "state_space fsm X nu A =
     (0 < nu \<and> is_mat nu nu A \<and> length (next_states fsm) = 2 ^ nu \<and>
      list_all
        (\<lambda>e. int2binlist (int (target fsm e)) nu
             = vec_mod2 (vec_add (vecmat (int2binlist (int (fst e)) nu) A)
                 (int2binlist (int (target fsm (0, snd e))) nu)))
        (edge_order fsm X))"

text \<open>\<open>P\<close> is the inverse of \<open>M\<close> over GF(2).\<close>

definition inverse_mod2 :: "nat \<Rightarrow> int list list \<Rightarrow> int list list \<Rightarrow> bool" where
  "inverse_mod2 nu P M = (is_mat nu nu P \<and> is_mat nu nu M \<and> mat_mod2 (matmul P M) = eye nu)"

text \<open>
  Two stand-ins for \<^verbatim>\<open>pseudo_inverse\<close> on matrices of one entry, one for each parity of the
  entry it may return, and one that returns the inverse of \<open>[[1, 1], [0, 1]]\<close> over GF(2).
\<close>

definition pinv_even :: "int list list \<Rightarrow> int list list" where
  "pinv_even M = [[0]]"

definition pinv_odd :: "int list list \<Rightarrow> int list list" where
  "pinv_odd M = [[1]]"

definition pinv_shear :: "int list list \<Rightarrow> int list list" where
  "pinv_shear M = [[1, 1], [0, 1]]"

section \<open>Construction and replay\<close>


text \<open>
  C9. On the documented machine, replaying the input \<open>[1,1,0,1,0]\<close> from state \<open>0\<close> gives
  the output \<open>[3,2,2,0,1]\<close> and the final state \<open>2\<close>.
\<close>

theorem process_example:
  "process example_fsm [1, 1, 0, 1, 0] 0 = Inr ([3, 2, 2, 0, 1], 2)"
  by (simp add: example_fsm_def get2_def py_index_def)

subsection \<open>Index arithmetic\<close>

lemma py_index_outside: "i < - int n \<or> int n \<le> i \<Longrightarrow> py_index n i = Inl IndexError"
  by (auto simp: py_index_def)

lemma py_index_Inr_less: "py_index n i = Inr r \<Longrightarrow> r < n"
  by (auto simp: py_index_def split: if_splits)

lemma py_index_nat: "py_index n (int k) = (if k < n then Inr k else Inl IndexError)"
  by (auto simp: py_index_def)


subsection \<open>The size of the output alphabet\<close>

text \<open>
  C5. The claim asks that every entry of the output table is below \<open>num_output_symbols\<close>.
  The source returns the largest entry itself: on the documented machine, whose output
  alphabet is \<open>{0,1,2,3}\<close>, it returns \<open>3\<close>, and the entry at \<open>(0,1)\<close> is \<open>3\<close>.
\<close>

theorem num_output_symbols_example:
  "num_output_symbols example_fsm = Inr 3 \<and> get2 (outputs example_fsm) 0 1 = Inr 3"
  by (simp add: num_output_symbols_def example_fsm_def get2_def py_index_def)

subsection \<open>Replay on symbols outside the alphabet\<close>

lemma get2_outside:
  assumes "rows_of_width a X" and "j < - int X \<or> int X \<le> j"
  shows "\<exists>e. get2 a i j = Inl e"
proof (cases "py_index (length a) i")
  case (Inl e)
  then show ?thesis by (simp add: get2_def)
next
  case (Inr r)
  then have "r < length a" by (rule py_index_Inr_less)
  with assms(1) have "length (a ! r) = X"
    by (simp add: rows_of_width_def list_all_length)
  with Inr assms(2) show ?thesis
    by (simp add: get2_def py_index_outside)
qed

text \<open>
  C6, as the source has it. Let every row of the transition table have \<open>X\<close> entries. If
  the input sequence holds a symbol below \<open>-X\<close> or at least \<open>X\<close>, then \<open>process\<close> fails,
  whatever the initial state, and the error carries no output. Symbols in \<open>[-X, 0)\<close> are
  not rejected: Python reads them as indices counted from the end of the row.
\<close>

theorem process_symbol_outside:
  assumes "rows_of_width (next_states fsm) X" and "symbol_outside X xs"
  shows "\<exists>e. process fsm xs s = Inl e"
  using assms(2)
proof (induction xs arbitrary: s)
  case Nil
  then show ?case by (simp add: symbol_outside_def)
next
  case (Cons x xs)
  show ?case
  proof (cases "x < - int X \<or> int X \<le> x")
    case True
    from get2_outside[OF assms(1) True] obtain e where "get2 (next_states fsm) s x = Inl e"
      by blast
    then show ?thesis by (simp split: sum.splits)
  next
    case False
    with Cons.prems have "symbol_outside X xs" by (simp add: symbol_outside_def)
    then have ih: "\<And>s'. \<exists>e. process fsm xs s' = Inl e" by (rule Cons.IH)
    show ?thesis
    proof (cases "get2 (outputs fsm) s x")
      case (Inl e)
      then show ?thesis by simp
    next
      case y: (Inr y)
      show ?thesis
      proof (cases "get2 (next_states fsm) s x")
        case (Inl e)
        with y show ?thesis by simp
      next
        case (Inr s')
        from ih[of s'] obtain e where "process fsm xs s' = Inl e" by blast
        with y Inr show ?thesis by simp
      qed
    qed
  qed
qed

theorem process_symbol_outside_witness:
  "rows_of_width (next_states example_fsm) 2 \<and> symbol_outside 2 [1, 2] \<and>
   process example_fsm [1, 2] 0 = Inl IndexError"
proof -
  have a: "rows_of_width (next_states example_fsm) 2"
    by (simp add: rows_of_width_def example_fsm_def)
  have b: "symbol_outside 2 [1, 2]" by (simp add: symbol_outside_def)
  from process_symbol_outside[OF a b, of 0] a b show ?thesis
    by (simp add: example_fsm_def get2_def py_index_def)
qed

text \<open>
  C6 as stated fails: on the documented machine (\<open>X = 2\<close>) the one-symbol input \<open>[-1]\<close>
  from state \<open>0\<close> is replayed as if it were \<open>[1]\<close>.
\<close>

theorem process_negative_symbol_accepted:
  "process example_fsm [- 1] 0 = Inr ([3], 1)"
  by (simp add: example_fsm_def get2_def py_index_def)

subsection \<open>Construction from malformed tables\<close>

lemma asarray_ragged: "ragged a \<Longrightarrow> asarray a = Inl ValueError"
  by (auto simp: ragged_def asarray_def list_ex_iff)

lemma square_replicate: "square S (replicate S (replicate S v))"
  by (simp add: square_def list_all_length)

lemma set2_square:
  assumes "set2 a i j v = Inr a'" and "square S a"
  shows "square S a'"
proof -
  from assms(1) obtain r c where a': "a' = a[r := (a ! r)[c := v]]" and r: "r < length a"
    by (auto simp: set2_def split: sum.splits dest: py_index_Inr_less)
  from assms(2) r show ?thesis
    unfolding a' square_def list_all_length by (auto simp: nth_list_update)
qed

lemma set2_square_outside:
  assumes "square S a" and "sf < S" and "v < - int S \<or> int S \<le> v"
  shows "set2 a (int sf) v w = Inl IndexError"
proof -
  from assms(1,2) have "length (a ! sf) = S" "sf < length a"
    by (simp_all add: square_def list_all_length)
  with assms(3) show ?thesis
    by (simp add: set2_def py_index_nat py_index_outside)
qed

lemma post_init_row_square:
  "post_init_row outs sf es (ie, oe) = Inr (ie', oe') \<Longrightarrow> square S ie \<Longrightarrow> square S ie'"
proof (induction es arbitrary: ie oe)
  case Nil
  then show ?case by simp
next
  case (Cons p es)
  obtain x st where p: "p = (x, st)" by (cases p)
  from Cons.prems(1) obtain ie1 y oe1 where
    s: "set2 ie (int sf) st (int x) = Inr ie1" and
    r: "post_init_row outs sf es (ie1, oe1) = Inr (ie', oe')"
    unfolding p by (auto split: sum.splits)
  from set2_square[OF s Cons.prems(2)] have "square S ie1" .
  with r show ?case by (rule Cons.IH)
qed

lemma post_init_row_outside:
  assumes "square S ie" and "sf < S"
    and "list_ex (\<lambda>p. snd p < - int S \<or> int S \<le> snd p) es"
  shows "\<exists>e. post_init_row outs sf es (ie, oe) = Inl e"
  using assms(1,3)
proof (induction es arbitrary: ie oe)
  case Nil
  then show ?case by simp
next
  case (Cons p es)
  obtain x st where p: "p = (x, st)" by (cases p)
  show ?case
  proof (cases "st < - int S \<or> int S \<le> st")
    case True
    from set2_square_outside[OF Cons.prems(1) assms(2) True]
    show ?thesis unfolding p by simp
  next
    case False
    with Cons.prems(2) have rest: "list_ex (\<lambda>p. snd p < - int S \<or> int S \<le> snd p) es"
      by (simp add: p)
    show ?thesis
    proof (cases "set2 ie (int sf) st (int x)")
      case (Inl e)
      then show ?thesis unfolding p by simp
    next
      case ie1: (Inr ie1)
      from set2_square[OF ie1 Cons.prems(1)] have sq: "square S ie1" .
      show ?thesis
      proof (cases "get2 outs (int sf) (int x)")
        case (Inl e)
        with ie1 show ?thesis unfolding p by simp
      next
        case y: (Inr y)
        show ?thesis
        proof (cases "set2 oe (int sf) st y")
          case (Inl e)
          with ie1 y show ?thesis unfolding p by simp
        next
          case (Inr oe1)
          from Cons.IH[OF sq rest, of oe1] obtain e where
            "post_init_row outs sf es (ie1, oe1) = Inl e" by blast
          with ie1 y Inr show ?thesis unfolding p by simp
        qed
      qed
    qed
  qed
qed

lemma post_init_states_outside:
  assumes "square S (fst edges)" and "list_all (\<lambda>sf. sf < S) sfs"
    and "list_ex (\<lambda>sf. list_ex (\<lambda>v. v < - int S \<or> int S \<le> v) (ns ! sf)) sfs"
  shows "\<exists>e. post_init_states ns outs sfs edges = Inl e"
  using assms
proof (induction sfs arbitrary: edges)
  case Nil
  then show ?case by simp
next
  case (Cons sf sfs)
  obtain ie oe where edges: "edges = (ie, oe)" by (cases edges)
  from Cons.prems(1) have sq: "square S ie" by (simp add: edges)
  from Cons.prems(2) have sf: "sf < S" and sfs: "list_all (\<lambda>sf. sf < S) sfs" by simp_all
  show ?case
  proof (cases "post_init_row outs sf (enumerate 0 (ns ! sf)) (ie, oe)")
    case (Inl e)
    then show ?thesis by (simp add: edges)
  next
    case (Inr edges1)
    obtain ie1 oe1 where edges1: "edges1 = (ie1, oe1)" by (cases edges1)
    from post_init_row_square[OF Inr[unfolded edges1] sq] have sq1: "square S (fst edges1)"
      by (simp add: edges1)
    have here: "\<not> list_ex (\<lambda>v. v < - int S \<or> int S \<le> v) (ns ! sf)"
    proof
      assume "list_ex (\<lambda>v. v < - int S \<or> int S \<le> v) (ns ! sf)"
      moreover have "set (ns ! sf) = snd ` set (enumerate 0 (ns ! sf))"
        by (metis map_snd_enumerate set_map)
      ultimately have
        "list_ex (\<lambda>p. snd p < - int S \<or> int S \<le> snd p) (enumerate 0 (ns ! sf))"
        by (auto simp: list_ex_iff)
      from post_init_row_outside[OF sq sf this, of outs oe] Inr show False by simp
    qed
    with Cons.prems(3) have
      "list_ex (\<lambda>sf. list_ex (\<lambda>v. v < - int S \<or> int S \<le> v) (ns ! sf)) sfs" by simp
    from Cons.IH[OF sq1 sfs this] Inr show ?thesis by (simp add: edges)
  qed
qed

text \<open>
  C7, as the source has it. Construction fails, and no machine is returned, when one of
  the two tables is not rectangular or when the transition table has an entry below
  \<open>-num_states\<close> or at least \<open>num_states\<close>. Entries in \<open>[-num_states, 0)\<close> are not
  rejected: they index the edge tables from the end.
\<close>

theorem construction_fails:
  assumes "ragged ns \<or> ragged outs \<or> entry_outside ns"
  shows "\<exists>e. FiniteStateMachine_new ns outs = Inl e"
proof (cases "ragged ns \<or> ragged outs")
  case True
  then show ?thesis
    by (auto simp: FiniteStateMachine_new_def asarray_ragged split: sum.splits)
next
  case False
  with assms have out: "entry_outside ns" by simp
  from False have a: "asarray ns = Inr ns" "asarray outs = Inr outs"
    by (auto simp: ragged_def asarray_def list_ex_iff)
  let ?S = "length ns"
  let ?blank = "replicate ?S (replicate ?S (- 1 :: int))"
  have sq: "square ?S (fst (?blank, ?blank))" by (simp add: square_replicate)
  have rng: "list_all (\<lambda>sf. sf < ?S) [0..<?S]" by (simp add: list_all_iff)
  from out obtain r where r: "r \<in> set ns"
    "list_ex (\<lambda>v. v < - int ?S \<or> int ?S \<le> v) r"
    by (auto simp: entry_outside_def list_ex_iff)
  from r(1) obtain i where "i < ?S" "ns ! i = r" by (auto simp: in_set_conv_nth)
  with r(2) have ex:
    "list_ex (\<lambda>sf. list_ex (\<lambda>v. v < - int ?S \<or> int ?S \<le> v) (ns ! sf)) [0..<?S]"
    unfolding list_ex_iff[of _ "[0..<?S]"] by (intro bexI[of _ i]) simp_all
  from post_init_states_outside[OF sq rng ex, of outs] obtain e where
    "post_init_states ns outs [0..<?S] (?blank, ?blank) = Inl e" by blast
  with a show ?thesis by (simp add: FiniteStateMachine_new_def num_states_def)
qed

theorem construction_fails_witness:
  "ragged [[0, 1], [0]] \<and> FiniteStateMachine_new [[0, 1], [0]] [[0, 0], [0, 0]] = Inl ValueError
   \<and> entry_outside [[0, 2], [1, 0]]
   \<and> FiniteStateMachine_new [[0, 2], [1, 0]] [[0, 0], [0, 0]] = Inl IndexError
   \<and> entry_outside [[0, - 3], [1, 0]]
   \<and> FiniteStateMachine_new [[0, - 3], [1, 0]] [[0, 0], [0, 0]] = Inl IndexError"
proof -
  have a: "ragged [[0, 1], [0]]" by (simp add: ragged_def)
  have b: "entry_outside [[0, 2], [1, 0]]" by (simp add: entry_outside_def)
  have c: "entry_outside [[0, - 3], [1, 0]]" by (simp add: entry_outside_def)
  from construction_fails[of "[[0, 1], [0]]" "[[0, 0], [0, 0]]"] a
  have "FiniteStateMachine_new [[0, 1], [0]] [[0, 0], [0, 0]] = Inl ValueError"
    by (auto simp: FiniteStateMachine_new_def asarray_def)
  moreover have "FiniteStateMachine_new [[0, 2], [1, 0]] [[0, 0], [0, 0]] = Inl IndexError"
    by (simp add: FiniteStateMachine_new_def asarray_def num_states_def
      set2_def get2_def py_index_def upt_rec enumerate_eq_zip)
  moreover have "FiniteStateMachine_new [[0, - 3], [1, 0]] [[0, 0], [0, 0]] = Inl IndexError"
    by (simp add: FiniteStateMachine_new_def asarray_def num_states_def
      set2_def get2_def py_index_def upt_rec enumerate_eq_zip)
  ultimately show ?thesis using a b c by simp
qed

text \<open>
  C7 as stated fails: a table with the entry \<open>-1\<close> is accepted, and the edge from state
  \<open>0\<close> on input \<open>0\<close> is recorded as an edge into state \<open>1\<close>.
\<close>

theorem construction_negative_entry_accepted:
  "FiniteStateMachine_new [[- 1, 0], [1, 0]] [[0, 1], [2, 3]] =
     Inr \<lparr>next_states = [[- 1, 0], [1, 0]], outputs = [[0, 1], [2, 3]],
          input_edges = [[1, 0], [1, 0]], output_edges = [[1, 0], [3, 2]]\<rparr>"
  by (simp add: FiniteStateMachine_new_def asarray_def num_states_def
      set2_def get2_def py_index_def upt_rec enumerate_eq_zip)

section \<open>One step of the forward pass\<close>


lemma metric_Fin_less: "Fin a < Fin b \<longleftrightarrow> a < b"
  by (auto simp: less_metric_def)

lemma metric_Fin_le: "Fin a \<le> Fin b \<longleftrightarrow> a \<le> b"
  by simp
















lemma relax_attained:
  assumes "j < length new" and "relax fsm c es (new, ch) = (new', ch')"
  shows "new' ! j = new ! j \<or> (\<exists>e \<in> set es. target fsm e = j \<and> c e = new' ! j)"
  using assms
proof (induction es arbitrary: new ch)
  case Nil
  then show ?case by simp
next
  case (Cons e es)
  let ?j0 = "target fsm e"
  show ?case
  proof (cases "c e < new ! ?j0")
    case True
    let ?new1 = "new[?j0 := c e]"
    from True Cons.prems(2) have r: "relax fsm c es (?new1, ch[?j0 := int (fst e)]) = (new', ch')"
      by simp
    from Cons.IH[OF _ r] Cons.prems(1)
    have "new' ! j = ?new1 ! j \<or> (\<exists>e \<in> set es. target fsm e = j \<and> c e = new' ! j)" by simp
    then show ?thesis
      using Cons.prems(1) by (cases "?j0 = j") auto
  next
    case False
    with Cons.prems(2) have "relax fsm c es (new, ch) = (new', ch')" by simp
    from Cons.IH[OF Cons.prems(1) this] show ?thesis by auto
  qed
qed





lemma tie_fsm_constructed:
  "FiniteStateMachine_new [[1, 0], [0, 1]] [[0, 0], [0, 0]] = Inr tie_fsm"
  by (simp add: FiniteStateMachine_new_def asarray_def num_states_def tie_fsm_def
      set2_def get2_def py_index_def upt_rec enumerate_eq_zip)





section \<open>Block decoding of a noiseless observation\<close>


lemma square_nth: "square S a \<Longrightarrow> r < S \<Longrightarrow> length (a ! r) = S"
  by (simp add: square_def list_all_length)





subsection \<open>Backtracking\<close>







subsection \<open>Metrics along the forward pass\<close>










subsection \<open>Replay on a well-formed machine\<close>


subsection \<open>Zero-cost paths through the forward pass\<close>





subsection \<open>Noiseless decoding\<close>












section \<open>Streaming decoding\<close>

subsection \<open>The parts of a streaming step\<close>

lemma forward_edges_cong:
  "cur = cur' \<Longrightarrow> forward_edges mf z cur s0 es acc = forward_edges mf z cur' s0 es acc"
  by simp














subsection \<open>A streaming step on a well-formed memory\<close>





subsection \<open>Symbols along a row of the path memory\<close>





subsection \<open>The block survivor of a state with a finite metric\<close>




subsection \<open>Streaming decisions along the block survivor\<close>




subsection \<open>Streaming against block decoding\<close>






section \<open>The fresh memory of the stream decoder\<close>




end
